theory Spec2Isabelle
  imports Main "HOL-Library.Sublist"
begin

section \<open>The WebSocket provider of the chat client\<close>

text \<open>
  The development embeds \<^verbatim>\<open>frontend/src/context/WebSocketContext.tsx\<close>: the
  React provider that owns the chat session's WebSocket, its heartbeat, its reconnect
  timer and the state fields read by the chat page.

  Conventions of the embedding.
  \<^item> A JavaScript string is a \<open>string\<close>; one \<open>char\<close> stands for one UTF-16 code unit, so
    \<^verbatim>\<open>startsWith\<close> is \<open>prefix\<close>, \<^verbatim>\<open>slice(n)\<close> is \<open>drop n\<close> and
    \<^verbatim>\<open>slice(0, n)\<close> is \<open>take n\<close>.
  \<^item> The \<^verbatim>\<open>useState\<close> cells and the \<^verbatim>\<open>useRef\<close> cells are fields of one
    record; a callback is a function from the record to the record. Every callback reads
    the current value of the \<^verbatim>\<open>socket\<close> cell. (In the source a function reads the
    cell as of the render that made it; the \<^verbatim>\<open>connect\<close> called by the reconnect
    timer is the one whose call created the socket. The general statements below hold
    for either reading, and on the concrete runs the cell is empty whenever a reconnect
    timer calls \<^verbatim>\<open>connect\<close> with the guard free.)
  \<^item> WebSocket objects live in a store (\<open>sockets\<close>), addressed by their index; the
    callbacks installed on a socket take that index, as they close over \<^verbatim>\<open>ws\<close>.
  \<^item> A pending \<^verbatim>\<open>setTimeout\<close> of the reconnect policy is an entry
    (handle, delay in ms) of \<open>timers\<close>; a running heartbeat \<^verbatim>\<open>setInterval\<close> is an
    entry of \<open>intervals\<close>.
  \<^item> The promise returned by \<^verbatim>\<open>connect\<close> is the \<open>settled\<close> field of the socket
    the call created; \<open>fromReconnect\<close> says that the reconnect timer attached its
    \<^verbatim>\<open>then\<close>/\<^verbatim>\<open>catch\<close> handlers to it.
  \<^item> A timer or interval handle held by a ref is \<open>Some h\<close>; the handles of a browser
    are positive numbers, so the truthiness tests of the source are tests for \<open>Some\<close>.
  \<^item> \<^verbatim>\<open>JSON.parse\<close> is a parameter \<open>parse\<close>; \<open>None\<close> is a thrown SyntaxError.
  The connection URL (API root, percent-encoding and the random client id) is not part
  of the state: the target of a socket is kept as the triple it was built from, and the
  \<^verbatim>\<open>WebSocket\<close> constructor is taken not to throw.
\<close>

subsection \<open>Data\<close>

datatype json =
    JNull
  | JBool bool
  | JNum int
  | JStr string
  | JArray "json list"
  | JObject "(string \<times> json) list"

datatype ready_state = CONNECTING | OPEN | CLOSING | CLOSED

datatype promise_state = Pending | Resolved | Rejected

datatype continuation = Caller | ReconnectTimer

text \<open>What \<^verbatim>\<open>statusMap[status] || status\<close> can yield: a string, or a member that the
  object literal inherits from \<^verbatim>\<open>Object.prototype\<close>. \<open>Inherited key\<close> only records that
  such a member, not a string, was handed to \<^verbatim>\<open>setStatusMessage\<close>; what React makes
  of it is not modelled.\<close>

datatype status_value = Text string | Inherited string

record conn_params =
  owner :: string
  repo :: string
  githubToken :: "string option"

record web_socket =
  readyState :: ready_state
  target :: conn_params
  outbox :: "string list"
  timeoutPending :: bool
  settled :: promise_state
  fromReconnect :: bool

record provider =
  socket :: "nat option"
  isConnected :: bool
  isProcessing :: bool
  lastMessage :: "string option"
  suggestions :: "json list"
  repoMetadata :: "json option"
  isReconnecting :: bool
  statusMessage :: "status_value option"
  streamingContent :: "string option"
  isStreaming :: bool
  errorMessage :: "string option"
  connectingRef :: bool
  pingIntervalRef :: "nat option"
  intentionalCloseRef :: bool
  reconnectAttemptsRef :: nat
  reconnectTimeoutRef :: "nat option"
  connParamsRef :: "conn_params option"
  sockets :: "web_socket list"
  timers :: "(nat \<times> nat) list"
  timersCreated :: nat
  intervals :: "nat list"

definition initial :: provider where
  "initial = \<lparr> socket = None, isConnected = False, isProcessing = False,
     lastMessage = None, suggestions = [], repoMetadata = None, isReconnecting = False,
     statusMessage = None, streamingContent = None, isStreaming = False,
     errorMessage = None, connectingRef = False, pingIntervalRef = None,
     intentionalCloseRef = False, reconnectAttemptsRef = 0, reconnectTimeoutRef = None,
     connParamsRef = None, sockets = [], timers = [], timersCreated = 0,
     intervals = [] \<rparr>"

definition MAX_MESSAGE_LENGTH :: nat where
  "MAX_MESSAGE_LENGTH = 10000"

subsection \<open>The platform: sockets, timers, promises\<close>

definition upd_socket :: "nat \<Rightarrow> (web_socket \<Rightarrow> web_socket) \<Rightarrow> provider \<Rightarrow> provider" where
  "upd_socket ws f s = s\<lparr>sockets := (sockets s)[ws := f (sockets s ! ws)]\<rparr>"

text \<open>\<^verbatim>\<open>ws.close()\<close>: a connecting or open socket starts closing, a closing or closed
  one is left alone.\<close>

definition close_socket :: "web_socket \<Rightarrow> web_socket" where
  "close_socket w =
     (if readyState w = CONNECTING \<or> readyState w = OPEN then w\<lparr>readyState := CLOSING\<rparr>
      else w)"

definition ws_close :: "nat \<Rightarrow> provider \<Rightarrow> provider" where
  "ws_close ws s = upd_socket ws close_socket s"

text \<open>\<^verbatim>\<open>ws.send(frame)\<close>, which the source only calls on an open socket.\<close>

definition ws_send :: "nat \<Rightarrow> string \<Rightarrow> provider \<Rightarrow> provider" where
  "ws_send ws frame s = upd_socket ws (\<lambda>w. w\<lparr>outbox := outbox w @ [frame]\<rparr>) s"

definition clearTimeout :: "nat \<Rightarrow> provider \<Rightarrow> provider" where
  "clearTimeout h s = s\<lparr>timers := filter (\<lambda>t. fst t \<noteq> h) (timers s)\<rparr>"

definition setTimeout :: "nat \<Rightarrow> provider \<Rightarrow> nat \<times> provider" where
  "setTimeout delay s =
     (timersCreated s,
      s\<lparr>timers := timers s @ [(timersCreated s, delay)], timersCreated := timersCreated s + 1\<rparr>)"

text \<open>The handlers that the reconnect timer chains to the promise of its
  \<^verbatim>\<open>connect\<close> call.\<close>

definition reconnect_then :: "provider \<Rightarrow> provider" where
  "reconnect_then s = s\<lparr>reconnectAttemptsRef := 0, isReconnecting := False\<rparr>"

definition reconnect_catch :: "provider \<Rightarrow> provider" where
  "reconnect_catch s =
     (if reconnectAttemptsRef s \<ge> 3 then s\<lparr>isReconnecting := False\<rparr> else s)"

text \<open>\<^verbatim>\<open>resolve()\<close> and \<^verbatim>\<open>reject()\<close> settle a promise once; a later call does
  nothing.\<close>

definition resolve :: "nat \<Rightarrow> provider \<Rightarrow> provider" where
  "resolve ws s =
     (if ws < length (sockets s) \<and> settled (sockets s ! ws) = Pending then
        (let s1 = upd_socket ws (\<lambda>w. w\<lparr>settled := Resolved\<rparr>) s
         in if fromReconnect (sockets s ! ws) then reconnect_then s1 else s1)
      else s)"

definition reject :: "nat \<Rightarrow> provider \<Rightarrow> provider" where
  "reject ws s =
     (if ws < length (sockets s) \<and> settled (sockets s ! ws) = Pending then
        (let s1 = upd_socket ws (\<lambda>w. w\<lparr>settled := Rejected\<rparr>) s
         in if fromReconnect (sockets s ! ws) then reconnect_catch s1 else s1)
      else s)"

subsection \<open>\<^verbatim>\<open>clearPingInterval\<close>, \<^verbatim>\<open>disconnect\<close>, \<^verbatim>\<open>connect\<close>\<close>

definition clearPingInterval :: "provider \<Rightarrow> provider" where
  "clearPingInterval s =
     (case pingIntervalRef s of
        None \<Rightarrow> s
      | Some h \<Rightarrow> s\<lparr>intervals := removeAll h (intervals s), pingIntervalRef := None\<rparr>)"

definition disconnect :: "provider \<Rightarrow> provider" where
  "disconnect s0 =
     (let s1 = s0\<lparr>intentionalCloseRef := True\<rparr>;
          s2 = (case reconnectTimeoutRef s1 of
                  None \<Rightarrow> s1
                | Some h \<Rightarrow> (clearTimeout h s1)\<lparr>reconnectTimeoutRef := None\<rparr>);
          s3 = s2\<lparr>reconnectAttemptsRef := 0, isReconnecting := False\<rparr>;
          s4 = clearPingInterval s3
      in case socket s4 of
           None \<Rightarrow> s4
         | Some ws \<Rightarrow>
             (ws_close ws s4)\<lparr>socket := None, isConnected := False, isProcessing := False,
               lastMessage := None, repoMetadata := None, statusMessage := None,
               streamingContent := None, isStreaming := False, errorMessage := None,
               connectingRef := False\<rparr>)"

text \<open>\<^verbatim>\<open>SAFE_PARAM_REGEX = /^[a-zA-Z0-9_.-]+$/\<close>.\<close>

definition safe_char :: "char \<Rightarrow> bool" where
  "safe_char c =
     (c \<in> set ''abcdefghijklmnopqrstuvwxyz'' \<or> c \<in> set ''ABCDEFGHIJKLMNOPQRSTUVWXYZ'' \<or>
      c \<in> set ''0123456789'' \<or> c = CHR ''_'' \<or> c = CHR ''.'' \<or> c = CHR ''-'')"

definition SAFE_PARAM_REGEX :: "string \<Rightarrow> bool" where
  "SAFE_PARAM_REGEX x = (x \<noteq> [] \<and> list_all safe_char x)"

text \<open>An \<^verbatim>\<open>async\<close> function returns \<^verbatim>\<open>undefined\<close> at once (a promise already
  resolved), throws (a promise already rejected), or hands out the promise of the socket it
  created.\<close>

datatype connect_outcome = Returned | Threw string | Started nat

definition connect ::
  "continuation \<Rightarrow> string \<Rightarrow> string \<Rightarrow> string option \<Rightarrow> provider \<Rightarrow> connect_outcome \<times> provider"
where
  "connect cont own rep tok s =
     (if connectingRef s then (Returned, s)
      else if \<not> SAFE_PARAM_REGEX own \<or> \<not> SAFE_PARAM_REGEX rep then
        (Threw ''Invalid repository owner or name.'', s)
      else if length own > 100 \<or> length rep > 100 then
        (Threw ''Repository owner or name too long.'', s)
      else
        (let params = \<lparr>owner = own, repo = rep, githubToken = tok\<rparr>;
             s1 = s\<lparr>connectingRef := True, intentionalCloseRef := False,
                    connParamsRef := Some params\<rparr>;
             s2 = (case socket s1 of
                     None \<Rightarrow> s1
                   | Some old \<Rightarrow>
                       (ws_close old s1)\<lparr>socket := None, isConnected := False,
                         isProcessing := False\<rparr>);
             s3 = clearPingInterval s2;
             ws = length (sockets s3);
             new = \<lparr>readyState = CONNECTING, target = params, outbox = [],
                     timeoutPending = True, settled = Pending,
                     fromReconnect = (cont = ReconnectTimer)\<rparr>
         in (Started ws, s3\<lparr>sockets := sockets s3 @ [new], socket := Some ws\<rparr>)))"

subsection \<open>The callbacks of a socket\<close>

text \<open>The 60 s timer armed by \<^verbatim>\<open>connect\<close>.\<close>

definition connect_timeout :: "nat \<Rightarrow> provider \<Rightarrow> provider" where
  "connect_timeout ws s = ws_close ws (reject ws (s\<lparr>connectingRef := False\<rparr>))"

definition ws_onerror :: "nat \<Rightarrow> provider \<Rightarrow> provider" where
  "ws_onerror ws s =
     reject ws
       ((upd_socket ws (\<lambda>w. w\<lparr>timeoutPending := False\<rparr>) s)
          \<lparr>connectingRef := False, isConnected := False, isProcessing := False\<rparr>)"

definition ws_onopen :: "nat \<Rightarrow> provider \<Rightarrow> provider" where
  "ws_onopen ws s =
     resolve ws
       ((upd_socket ws (\<lambda>w. w\<lparr>timeoutPending := False\<rparr>) s)
          \<lparr>isConnected := True, pingIntervalRef := Some ws, intervals := ws # intervals s,
            isProcessing := True\<rparr>)"

text \<open>One tick of the 240 s heartbeat interval created by \<^verbatim>\<open>ws.onopen\<close>.\<close>

definition ping_tick :: "nat \<Rightarrow> provider \<Rightarrow> provider" where
  "ping_tick ws s =
     (if ws < length (sockets s) \<and> readyState (sockets s ! ws) = OPEN
      then ws_send ws ''ping'' s else s)"

definition statusMap :: "(string \<times> string) list" where
  "statusMap =
     [(''cloning'', ''Fetching repository...''),
      (''chunking'', ''Analyzing code structure...''),
      (''indexing'', ''Building knowledge base...''),
      (''searching'', ''Searching codebase...''),
      (''thinking'', ''Generating response...'')]"

definition object_prototype_keys :: "string list" where
  "object_prototype_keys =
     [''constructor'', ''hasOwnProperty'', ''isPrototypeOf'', ''propertyIsEnumerable'',
      ''toLocaleString'', ''toString'', ''valueOf'', ''__proto__'', ''__defineGetter__'',
      ''__defineSetter__'', ''__lookupGetter__'', ''__lookupSetter__'']"

definition status_text :: "string \<Rightarrow> status_value" where
  "status_text status =
     (case map_of statusMap status of
        Some v \<Rightarrow> Text v
      | None \<Rightarrow> if status \<in> set object_prototype_keys then Inherited status else Text status)"

definition ws_onmessage ::
  "(string \<Rightarrow> json option) \<Rightarrow> nat \<Rightarrow> string \<Rightarrow> provider \<Rightarrow> provider"
where
  "ws_onmessage parse ws data s =
     (if data = ''pong'' then s
      else if data = ''error:repo_too_large'' \<or> data = ''error:repo_not_found'' \<or>
              data = ''error:repo_private'' \<or> data = ''error:repo_not_installed'' \<or>
              data = ''error:rate_limited'' \<or> data = ''error:server_busy'' then
        ws_close ws (s\<lparr>lastMessage := Some data, connectingRef := False,
                        isProcessing := False\<rparr>)
      else if data = ''error:timeout'' then
        s\<lparr>errorMessage := Some ''Response timed out. Please try a simpler question.'',
          statusMessage := None, isStreaming := False, streamingContent := None\<rparr>
      else if data = ''error:keys_exhausted'' then
        s\<lparr>errorMessage :=
            Some ''Service temporarily unavailable. Please try again in a few minutes.'',
          statusMessage := None, isStreaming := False, streamingContent := None\<rparr>
      else if data = ''error:generation_failed'' \<or> data = ''error:retrieval_failed'' then
        s\<lparr>errorMessage := Some ''Something went wrong. Please try again.'',
          statusMessage := None, isStreaming := False, streamingContent := None\<rparr>
      else if data = ''error:indexing_failed'' then
        ws_close ws
          (s\<lparr>errorMessage := Some ''Failed to build knowledge base. Please try again.'',
             statusMessage := None, isProcessing := False, connectingRef := False\<rparr>)
      else if data = ''error:unexpected'' then
        ws_close ws (s\<lparr>lastMessage := Some ''error:repo_not_found'',
                        connectingRef := False, isProcessing := False\<rparr>)
      else if prefix ''status:'' data then
        s\<lparr>statusMessage := Some (status_text (drop (length ''status:'') data))\<rparr>
      else if prefix ''stream:chunk:'' data then
        s\<lparr>statusMessage := None, isStreaming := True,
          streamingContent :=
            Some ((case streamingContent s of None \<Rightarrow> [] | Some prev \<Rightarrow> prev)
                  @ drop (length ''stream:chunk:'') data)\<rparr>
      else if data = ''stream:end'' then
        (case streamingContent s of
           None \<Rightarrow> s\<lparr>isStreaming := False, streamingContent := None\<rparr>
         | Some prev \<Rightarrow>
             if prev \<noteq> [] then
               s\<lparr>isStreaming := False, lastMessage := Some prev, streamingContent := None\<rparr>
             else s\<lparr>isStreaming := False, streamingContent := None\<rparr>)
      else if data = ''repo_processed'' then
        s\<lparr>isProcessing := False, statusMessage := None, connectingRef := False,
          lastMessage := Some ''repo_processed''\<rparr>
      else if prefix ''metadata:'' data then
        (case parse (drop (length ''metadata:'') data) of
           None \<Rightarrow> s
         | Some parsed \<Rightarrow>
             s\<lparr>repoMetadata := (if parsed = JNull then None else Some parsed)\<rparr>)
      else if prefix ''suggestions:'' data then
        (case parse (drop (length ''suggestions:'') data) of
           Some (JArray parsed) \<Rightarrow> s\<lparr>suggestions := parsed\<rparr>
         | _ \<Rightarrow> s)
      else s\<lparr>lastMessage := Some data\<rparr>)"

text \<open>The callback of the reconnect timer. \<^verbatim>\<open>connParamsRef.current!\<close> is only an
  assertion of the type checker: with no parameters stored the property access throws
  and the callback ends after the increment.\<close>

definition reconnect_fire :: "provider \<Rightarrow> provider" where
  "reconnect_fire s =
     (let s1 = s\<lparr>reconnectAttemptsRef := reconnectAttemptsRef s + 1\<rparr>
      in case connParamsRef s1 of
           None \<Rightarrow> s1
         | Some params \<Rightarrow>
             (case connect ReconnectTimer (owner params) (repo params) (githubToken params) s1 of
                (Returned, s2) \<Rightarrow> reconnect_then s2
              | (Threw e, s2) \<Rightarrow> reconnect_catch s2
              | (Started ws, s2) \<Rightarrow> s2))"

definition ws_onclose :: "nat \<Rightarrow> provider \<Rightarrow> provider" where
  "ws_onclose ws s0 =
     (let s1 = (clearPingInterval s0)\<lparr>isConnected := False, isProcessing := False,
                 socket := None, connectingRef := False\<rparr>
      in if \<not> intentionalCloseRef s1 \<and> connParamsRef s1 \<noteq> None \<and> reconnectAttemptsRef s1 < 3
         then
           (let attempt = reconnectAttemptsRef s1;
                delay = 2 ^ attempt * 1000;
                (h, s2) = setTimeout delay (s1\<lparr>isReconnecting := True\<rparr>)
            in s2\<lparr>reconnectTimeoutRef := Some h\<rparr>)
         else s1)"

definition sendMessage :: "string \<Rightarrow> provider \<Rightarrow> provider" where
  "sendMessage message s =
     (case socket s of
        None \<Rightarrow> s
      | Some ws \<Rightarrow>
          if ws < length (sockets s) \<and> readyState (sockets s ! ws) = OPEN then
            (let trimmed = take MAX_MESSAGE_LENGTH message
             in ws_send ws trimmed (s\<lparr>suggestions := []\<rparr>))
          else s)"

subsection \<open>Events\<close>

text \<open>
  What can happen to a provider: a call of its three operations, an event of a socket, or
  a timer going off. The browser opens only a connecting socket, delivers frames only on an
  open one, reports the end of a socket once, and runs a timer only while it is pending.
\<close>

datatype event =
    Connect string string "string option"
  | Disconnect
  | SendMessage string
  | WsOpen nat
  | WsMessage nat string
  | WsError nat
  | WsClose nat
  | ConnectTimeout nat
  | PingTick nat
  | ReconnectFire nat

fun step :: "(string \<Rightarrow> json option) \<Rightarrow> event \<Rightarrow> provider \<Rightarrow> provider" where
  "step parse (Connect own rep tok) s = snd (connect Caller own rep tok s)"
| "step parse Disconnect s = disconnect s"
| "step parse (SendMessage message) s = sendMessage message s"
| "step parse (WsOpen ws) s =
     (if ws < length (sockets s) \<and> readyState (sockets s ! ws) = CONNECTING
      then ws_onopen ws (upd_socket ws (\<lambda>w. w\<lparr>readyState := OPEN\<rparr>) s) else s)"
| "step parse (WsMessage ws data) s =
     (if ws < length (sockets s) \<and> readyState (sockets s ! ws) = OPEN
      then ws_onmessage parse ws data s else s)"
| "step parse (WsError ws) s =
     (if ws < length (sockets s) \<and> readyState (sockets s ! ws) \<noteq> CLOSED
      then ws_onerror ws s else s)"
| "step parse (WsClose ws) s =
     (if ws < length (sockets s) \<and> readyState (sockets s ! ws) \<noteq> CLOSED
      then ws_onclose ws (upd_socket ws (\<lambda>w. w\<lparr>readyState := CLOSED\<rparr>) s) else s)"
| "step parse (ConnectTimeout ws) s =
     (if ws < length (sockets s) \<and> timeoutPending (sockets s ! ws)
      then connect_timeout ws (upd_socket ws (\<lambda>w. w\<lparr>timeoutPending := False\<rparr>) s) else s)"
| "step parse (PingTick ws) s = (if ws \<in> set (intervals s) then ping_tick ws s else s)"
| "step parse (ReconnectFire h) s =
     (if h \<in> fst ` set (timers s) then reconnect_fire (clearTimeout h s) else s)"

fun run :: "(string \<Rightarrow> json option) \<Rightarrow> event list \<Rightarrow> provider \<Rightarrow> provider" where
  "run parse [] s = s"
| "run parse (e # es) s = run parse es (step parse e s)"

subsection \<open>Names used in the statements\<close>

text \<open>The six tokens of the first error test of \<^verbatim>\<open>ws.onmessage\<close>, and the four
  tokens of the three tests that follow it.\<close>

definition connection_fatal :: "string list" where
  "connection_fatal =
     [''error:repo_too_large'', ''error:repo_not_found'', ''error:repo_private'',
      ''error:repo_not_installed'', ''error:rate_limited'', ''error:server_busy'']"

definition chat_recoverable :: "string list" where
  "chat_recoverable =
     [''error:timeout'', ''error:keys_exhausted'', ''error:generation_failed'',
      ''error:retrieval_failed'']"

text \<open>The condition of \<^verbatim>\<open>sendMessage\<close>:
  \<^verbatim>\<open>socket && socket.readyState === WebSocket.OPEN\<close>.\<close>

definition transport_open :: "provider \<Rightarrow> bool" where
  "transport_open s =
     (case socket s of
        None \<Rightarrow> False
      | Some ws \<Rightarrow> ws < length (sockets s) \<and> readyState (sockets s ! ws) = OPEN)"

text \<open>The stream buffer as the chunk updater reads it: \<^verbatim>\<open>prev || ''\<close>.\<close>

definition stream_buffer :: "provider \<Rightarrow> string" where
  "stream_buffer s = (case streamingContent s of None \<Rightarrow> [] | Some prev \<Rightarrow> prev)"

text \<open>The events whose callback writes \<^verbatim>\<open>connectingRef.current = false\<close>: the
  frames that end the connection phase, the close of a socket, \<^verbatim>\<open>disconnect\<close> (which
  writes it when it holds a socket), and the two failures of a connection attempt, namely
  the error event (which the browser fires only together with a close event) and the 60 s
  timeout (which \<^verbatim>\<open>ws.onopen\<close> cancels).\<close>

definition releases_guard :: "event \<Rightarrow> bool" where
  "releases_guard e =
     (case e of
        WsMessage ws data \<Rightarrow>
          data \<in> set connection_fatal \<or> data = ''error:indexing_failed'' \<or>
          data = ''error:unexpected'' \<or> data = ''repo_processed''
      | WsClose ws \<Rightarrow> True
      | WsError ws \<Rightarrow> True
      | ConnectTimeout ws \<Rightarrow> True
      | Disconnect \<Rightarrow> True
      | _ \<Rightarrow> False)"

text \<open>The reconnect policy has given up: the counter has reached the cap, no reconnect
  timer is pending, and no connection attempt started by a reconnect timer is still
  unsettled.\<close>

definition no_retry_pending :: "web_socket \<Rightarrow> bool" where
  "no_retry_pending w = (\<not> (fromReconnect w \<and> settled w = Pending))"

definition reconnect_spent :: "provider \<Rightarrow> bool" where
  "reconnect_spent s =
     (3 \<le> reconnectAttemptsRef s \<and> timers s = [] \<and> list_all no_retry_pending (sockets s))"

text \<open>A parser that rejects every text, for runs whose frames carry no JSON.\<close>

definition parse_rejecting :: "string \<Rightarrow> json option" where
  "parse_rejecting text = None"

text \<open>Two concrete sessions: one whose socket has just opened, and one whose socket the
  server dropped after a first answer.\<close>

definition session_open :: provider where
  "session_open =
     run parse_rejecting [Connect ''octocat'' ''hello-world'' None, WsOpen 0] initial"

definition session_dropped :: provider where
  "session_dropped =
     run parse_rejecting
       [Connect ''octocat'' ''hello-world'' None, WsOpen 0, WsMessage 0 ''Hello'', WsClose 0]
       initial"

text \<open>A session whose three reconnect attempts have all failed, and one whose second
  reconnect attempt is still connecting.\<close>

definition session_exhausted :: provider where
  "session_exhausted =
     run parse_rejecting
       [Connect ''octocat'' ''hello-world'' None, WsOpen 0, WsClose 0,
        ReconnectFire 0, WsError 1, WsClose 1,
        ReconnectFire 1, WsError 2, WsClose 2,
        ReconnectFire 2, WsError 3, WsClose 3]
       initial"

definition session_retrying :: provider where
  "session_retrying =
     run parse_rejecting
       [Connect ''octocat'' ''hello-world'' None, WsOpen 0, WsClose 0,
        ReconnectFire 0, WsError 1, WsClose 1, ReconnectFire 1]
       initial"

section \<open>Properties\<close>

subsection \<open>Basic facts about the platform operations\<close>

lemma upd_socket_fields:
  "connectingRef (upd_socket ws f s) = connectingRef s"
  "reconnectAttemptsRef (upd_socket ws f s) = reconnectAttemptsRef s"
  "timers (upd_socket ws f s) = timers s"
  "connParamsRef (upd_socket ws f s) = connParamsRef s"
  "intentionalCloseRef (upd_socket ws f s) = intentionalCloseRef s"
  "socket (upd_socket ws f s) = socket s"
  "sockets (upd_socket ws f s) = (sockets s)[ws := f (sockets s ! ws)]"
  by (simp_all add: upd_socket_def)

lemma ws_close_fields:
  "lastMessage (ws_close ws s) = lastMessage s"
  "errorMessage (ws_close ws s) = errorMessage s"
  "isProcessing (ws_close ws s) = isProcessing s"
  "connectingRef (ws_close ws s) = connectingRef s"
  "intentionalCloseRef (ws_close ws s) = intentionalCloseRef s"
  "length (sockets (ws_close ws s)) = length (sockets s)"
  by (simp_all add: ws_close_def upd_socket_def)

lemma ws_close_open:
  assumes "ws < length (sockets s)" and "readyState (sockets s ! ws) = OPEN"
  shows "readyState (sockets (ws_close ws s) ! ws) = CLOSING"
  using assms by (simp add: ws_close_def upd_socket_def close_socket_def)

lemma clearPingInterval_fields:
  "socket (clearPingInterval s) = socket s"
  "sockets (clearPingInterval s) = sockets s"
  "timers (clearPingInterval s) = timers s"
  "isConnected (clearPingInterval s) = isConnected s"
  "isProcessing (clearPingInterval s) = isProcessing s"
  "lastMessage (clearPingInterval s) = lastMessage s"
  "repoMetadata (clearPingInterval s) = repoMetadata s"
  "statusMessage (clearPingInterval s) = statusMessage s"
  "streamingContent (clearPingInterval s) = streamingContent s"
  "isStreaming (clearPingInterval s) = isStreaming s"
  "errorMessage (clearPingInterval s) = errorMessage s"
  "suggestions (clearPingInterval s) = suggestions s"
  "isReconnecting (clearPingInterval s) = isReconnecting s"
  "connectingRef (clearPingInterval s) = connectingRef s"
  "intentionalCloseRef (clearPingInterval s) = intentionalCloseRef s"
  "reconnectAttemptsRef (clearPingInterval s) = reconnectAttemptsRef s"
  "reconnectTimeoutRef (clearPingInterval s) = reconnectTimeoutRef s"
  "connParamsRef (clearPingInterval s) = connParamsRef s"
  "timersCreated (clearPingInterval s) = timersCreated s"
  "pingIntervalRef (clearPingInterval s) = None"
  by (simp_all add: clearPingInterval_def split: option.splits)

lemma clearPingInterval_intervals:
  "intervals (clearPingInterval s) =
     (case pingIntervalRef s of None \<Rightarrow> intervals s | Some h \<Rightarrow> removeAll h (intervals s))"
  by (simp add: clearPingInterval_def split: option.splits)

lemma connect_started:
  assumes "connect cont own rep tok s0 = (Started ws, s)"
  shows "ws < length (sockets s) \<and> readyState (sockets s ! ws) = CONNECTING \<and>
         settled (sockets s ! ws) = Pending \<and>
         fromReconnect (sockets s ! ws) = (cont = ReconnectTimer) \<and>
         reconnectAttemptsRef s = reconnectAttemptsRef s0 \<and>
         socket s = Some ws \<and> connectingRef s"
  using assms
  by (auto simp: connect_def Let_def ws_close_def upd_socket_def nth_append
           clearPingInterval_fields split: if_splits option.splits)

lemmas platform_simps = upd_socket_fields ws_close_fields clearPingInterval_fields

subsection \<open>Frames one by one\<close>

lemma fatal_frame:
  assumes "data \<in> set connection_fatal"
  shows "ws_onmessage parse ws data s =
         ws_close ws (s\<lparr>lastMessage := Some data, connectingRef := False,
                         isProcessing := False\<rparr>)"
  using assms by (auto simp: connection_fatal_def ws_onmessage_def)

lemma unexpected_frame:
  "ws_onmessage parse ws ''error:unexpected'' s =
   ws_close ws (s\<lparr>lastMessage := Some ''error:repo_not_found'', connectingRef := False,
                   isProcessing := False\<rparr>)"
  by (simp add: ws_onmessage_def)

lemma indexing_failed_frame:
  "ws_onmessage parse ws ''error:indexing_failed'' s =
   ws_close ws
     (s\<lparr>errorMessage := Some ''Failed to build knowledge base. Please try again.'',
        statusMessage := None, isProcessing := False, connectingRef := False\<rparr>)"
  by (simp add: ws_onmessage_def)

text \<open>
  C1 (the code at a concrete session). A session opens and the server answers
  \<^verbatim>\<open>error:repo_not_found\<close>. The handler clears \<open>isProcessing\<close> and closes the
  socket, but it leaves \<open>intentionalCloseRef\<close> unset; the close event that follows
  therefore arms the reconnect timer with a delay of 1000 ms, and so it does after each of
  the six connection-fatal tokens. The timer reconnects, the
  new socket opens (which resets the attempt counter), the server repeats its answer, and
  the next close arms the timer with 1000 ms once more.
\<close>

theorem fatal_close_is_followed_by_reconnect:
  "isProcessing (run parse_rejecting
      [Connect ''octocat'' ''hello-world'' None, WsOpen 0,
       WsMessage 0 ''error:repo_not_found''] initial) = False \<and>
   map readyState (sockets (run parse_rejecting
      [Connect ''octocat'' ''hello-world'' None, WsOpen 0,
       WsMessage 0 ''error:repo_not_found''] initial)) = [CLOSING] \<and>
   intentionalCloseRef (run parse_rejecting
      [Connect ''octocat'' ''hello-world'' None, WsOpen 0,
       WsMessage 0 ''error:repo_not_found''] initial) = False \<and>
   timers (run parse_rejecting
      [Connect ''octocat'' ''hello-world'' None, WsOpen 0,
       WsMessage 0 ''error:repo_too_large'', WsClose 0] initial) = [(0, 1000)] \<and>
   timers (run parse_rejecting
      [Connect ''octocat'' ''hello-world'' None, WsOpen 0,
       WsMessage 0 ''error:repo_not_found'', WsClose 0] initial) = [(0, 1000)] \<and>
   timers (run parse_rejecting
      [Connect ''octocat'' ''hello-world'' None, WsOpen 0,
       WsMessage 0 ''error:repo_private'', WsClose 0] initial) = [(0, 1000)] \<and>
   timers (run parse_rejecting
      [Connect ''octocat'' ''hello-world'' None, WsOpen 0,
       WsMessage 0 ''error:repo_not_installed'', WsClose 0] initial) = [(0, 1000)] \<and>
   timers (run parse_rejecting
      [Connect ''octocat'' ''hello-world'' None, WsOpen 0,
       WsMessage 0 ''error:rate_limited'', WsClose 0] initial) = [(0, 1000)] \<and>
   timers (run parse_rejecting
      [Connect ''octocat'' ''hello-world'' None, WsOpen 0,
       WsMessage 0 ''error:server_busy'', WsClose 0] initial) = [(0, 1000)] \<and>
   map readyState (sockets (run parse_rejecting
      [Connect ''octocat'' ''hello-world'' None, WsOpen 0,
       WsMessage 0 ''error:repo_not_found'', WsClose 0, ReconnectFire 0] initial))
     = [CLOSED, CONNECTING] \<and>
   timers (run parse_rejecting
      [Connect ''octocat'' ''hello-world'' None, WsOpen 0,
       WsMessage 0 ''error:repo_not_found'', WsClose 0, ReconnectFire 0, WsOpen 1,
       WsMessage 1 ''error:repo_not_found'', WsClose 1] initial) = [(1, 1000)]"
  by code_simp

text \<open>
  C2 (as the code has it). On an open socket, each of the six connection-fatal tokens
  becomes \<open>lastMessage\<close> and \<^verbatim>\<open>error:unexpected\<close> becomes the \<open>lastMessage\<close>
  \<^verbatim>\<open>error:repo_not_found\<close>; \<^verbatim>\<open>error:indexing_failed\<close> leaves \<open>lastMessage\<close> as it
  was and is reported through \<open>errorMessage\<close>. In all eight cases the socket is closed.
\<close>

theorem connection_fatal_frames:
  assumes "ws < length (sockets s)" and "readyState (sockets s ! ws) = OPEN"
    and "data \<in> set connection_fatal"
  shows "lastMessage (ws_onmessage parse ws data s) = Some data \<and>
         readyState (sockets (ws_onmessage parse ws data s) ! ws) = CLOSING \<and>
         lastMessage (ws_onmessage parse ws ''error:unexpected'' s)
           = Some ''error:repo_not_found'' \<and>
         readyState (sockets (ws_onmessage parse ws ''error:unexpected'' s) ! ws) = CLOSING \<and>
         lastMessage (ws_onmessage parse ws ''error:indexing_failed'' s) = lastMessage s \<and>
         errorMessage (ws_onmessage parse ws ''error:indexing_failed'' s)
           = Some ''Failed to build knowledge base. Please try again.'' \<and>
         readyState (sockets (ws_onmessage parse ws ''error:indexing_failed'' s) ! ws)
           = CLOSING"
  using assms
  by (simp add: fatal_frame unexpected_frame indexing_failed_frame ws_close_open
        ws_close_fields)

theorem connection_fatal_frames_witness:
  "lastMessage (ws_onmessage parse_rejecting 0 ''error:repo_private'' session_open)
     = Some ''error:repo_private'' \<and>
   readyState (sockets (ws_onmessage parse_rejecting 0 ''error:repo_private'' session_open) ! 0)
     = CLOSING \<and>
   lastMessage (ws_onmessage parse_rejecting 0 ''error:unexpected'' session_open)
     = Some ''error:repo_not_found'' \<and>
   readyState (sockets (ws_onmessage parse_rejecting 0 ''error:unexpected'' session_open) ! 0)
     = CLOSING \<and>
   lastMessage (ws_onmessage parse_rejecting 0 ''error:indexing_failed'' session_open)
     = lastMessage session_open \<and>
   errorMessage (ws_onmessage parse_rejecting 0 ''error:indexing_failed'' session_open)
     = Some ''Failed to build knowledge base. Please try again.'' \<and>
   readyState (sockets (ws_onmessage parse_rejecting 0 ''error:indexing_failed'' session_open) ! 0)
     = CLOSING"
proof -
  have live: "0 < length (sockets session_open)" by code_simp
  have opened: "readyState (sockets session_open ! 0) = OPEN" by code_simp
  have token: "''error:repo_private'' \<in> set connection_fatal" by code_simp
  show ?thesis by (rule connection_fatal_frames [OF live opened token])
qed

text \<open>
  C2 as stated fails for \<^verbatim>\<open>error:indexing_failed\<close>: on a freshly opened session the
  frame leaves \<open>lastMessage\<close> empty and sets \<open>errorMessage\<close>.
\<close>

theorem indexing_failed_keeps_lastMessage:
  "lastMessage (step parse_rejecting (WsMessage 0 ''error:indexing_failed'') session_open)
     = None \<and>
   errorMessage (step parse_rejecting (WsMessage 0 ''error:indexing_failed'') session_open)
     = Some ''Failed to build knowledge base. Please try again.''"
  by code_simp

text \<open>
  C3 (as the code has it). A frame that none of the tests of the handler matches is stored
  as \<open>lastMessage\<close>; no other field changes, and \<open>isProcessing\<close> in particular keeps its
  value.
\<close>

theorem default_frame:
  assumes "data \<noteq> ''ping''" and "data \<noteq> ''pong''"
    and "data \<notin> set connection_fatal" and "data \<notin> set chat_recoverable"
    and "data \<noteq> ''error:indexing_failed''" and "data \<noteq> ''error:unexpected''"
    and "\<not> prefix ''status:'' data" and "\<not> prefix ''stream:chunk:'' data"
    and "data \<noteq> ''stream:end''" and "data \<noteq> ''repo_processed''"
    and "\<not> prefix ''metadata:'' data" and "\<not> prefix ''suggestions:'' data"
  shows "ws_onmessage parse ws data s = s\<lparr>lastMessage := Some data\<rparr> \<and>
         isProcessing (ws_onmessage parse ws data s) = isProcessing s"
  using assms by (simp add: ws_onmessage_def connection_fatal_def chat_recoverable_def)

theorem default_frame_witness:
  "ws_onmessage parse_rejecting 0 ''Hello'' session_open
     = session_open\<lparr>lastMessage := Some ''Hello''\<rparr> \<and>
   isProcessing (ws_onmessage parse_rejecting 0 ''Hello'' session_open)
     = isProcessing session_open"
  by (rule default_frame) (simp_all add: connection_fatal_def chat_recoverable_def)

text \<open>
  C3 as stated fails: a freshly opened session is processing, and it still is after the
  plain frame \<^verbatim>\<open>Hello\<close> has become \<open>lastMessage\<close>.
\<close>

theorem default_frame_keeps_isProcessing:
  "isProcessing session_open = True \<and>
   isProcessing (step parse_rejecting (WsMessage 0 ''Hello'') session_open) = True \<and>
   lastMessage (step parse_rejecting (WsMessage 0 ''Hello'') session_open) = Some ''Hello''"
  by code_simp

text \<open>
  C5 (as the code has it). The frame \<^verbatim>\<open>pong\<close> leaves every field of the provider
  unchanged. The handler has no rule for \<^verbatim>\<open>ping\<close>: that frame reaches the last
  \<^verbatim>\<open>else\<close> branch, which stores it as \<open>lastMessage\<close> and changes nothing else.
\<close>

theorem heartbeat_frames:
  "ws_onmessage parse ws ''pong'' s = s \<and>
   ws_onmessage parse ws ''ping'' s = s\<lparr>lastMessage := Some ''ping''\<rparr>"
  by (simp add: ws_onmessage_def)

text \<open>
  C5 as stated fails: on a freshly opened session the frame \<^verbatim>\<open>ping\<close> changes
  \<open>lastMessage\<close> from \<open>None\<close> to \<open>Some ''ping''\<close>.
\<close>

theorem ping_frame_changes_lastMessage:
  "lastMessage session_open = None \<and>
   lastMessage (step parse_rejecting (WsMessage 0 ''ping'') session_open) = Some ''ping''"
  by code_simp

subsection \<open>\<^verbatim>\<open>disconnect\<close>\<close>

text \<open>
  C4 (as the code has it). \<^verbatim>\<open>disconnect\<close> always sets the intentional-close flag,
  cancels the reconnect timer whose handle it holds, resets the attempt counter to 0,
  clears \<open>isReconnecting\<close> and clears the heartbeat interval whose handle it holds. When
  the \<^verbatim>\<open>socket\<close> cell holds a socket, it closes that socket and resets the session
  fields \<open>isConnected\<close>, \<open>isProcessing\<close>, \<open>lastMessage\<close>, \<open>repoMetadata\<close>,
  \<open>statusMessage\<close>, \<open>streamingContent\<close>, \<open>isStreaming\<close> and \<open>errorMessage\<close>. When the
  cell is empty, the socket store and all of these fields keep their values.
\<close>

theorem disconnect_effect:
  "intentionalCloseRef (disconnect s) \<and>
   reconnectTimeoutRef (disconnect s) = None \<and>
   (reconnectTimeoutRef s = Some h \<longrightarrow> h \<notin> fst ` set (timers (disconnect s))) \<and>
   reconnectAttemptsRef (disconnect s) = 0 \<and>
   \<not> isReconnecting (disconnect s) \<and>
   pingIntervalRef (disconnect s) = None \<and>
   (pingIntervalRef s = Some i \<longrightarrow> i \<notin> set (intervals (disconnect s))) \<and>
   (socket s = Some ws \<longrightarrow>
      sockets (disconnect s) = (sockets s)[ws := close_socket (sockets s ! ws)] \<and>
      socket (disconnect s) = None \<and>
      \<not> isConnected (disconnect s) \<and> \<not> isProcessing (disconnect s) \<and>
      lastMessage (disconnect s) = None \<and> repoMetadata (disconnect s) = None \<and>
      statusMessage (disconnect s) = None \<and> streamingContent (disconnect s) = None \<and>
      \<not> isStreaming (disconnect s) \<and> errorMessage (disconnect s) = None) \<and>
   (socket s = None \<longrightarrow>
      sockets (disconnect s) = sockets s \<and>
      isConnected (disconnect s) = isConnected s \<and>
      isProcessing (disconnect s) = isProcessing s \<and>
      lastMessage (disconnect s) = lastMessage s \<and>
      repoMetadata (disconnect s) = repoMetadata s \<and>
      statusMessage (disconnect s) = statusMessage s \<and>
      streamingContent (disconnect s) = streamingContent s \<and>
      isStreaming (disconnect s) = isStreaming s \<and>
      errorMessage (disconnect s) = errorMessage s)"
  by (cases "reconnectTimeoutRef s"; cases "socket s")
     (auto simp: disconnect_def Let_def clearTimeout_def ws_close_def upd_socket_def
        clearPingInterval_intervals clearPingInterval_fields)

text \<open>Both cases, on the open session and on the dropped one.\<close>

theorem disconnect_effect_witness:
  "intentionalCloseRef (disconnect session_open) \<and>
   reconnectAttemptsRef (disconnect session_open) = 0 \<and>
   pingIntervalRef (disconnect session_open) = None \<and>
   0 \<notin> set (intervals (disconnect session_open)) \<and>
   map readyState (sockets (disconnect session_open)) = [CLOSING] \<and>
   lastMessage (disconnect session_open) = None \<and>
   \<not> isProcessing (disconnect session_open) \<and>
   0 \<notin> fst ` set (timers (disconnect session_dropped)) \<and>
   \<not> isReconnecting (disconnect session_dropped) \<and>
   lastMessage (disconnect session_dropped) = Some ''Hello''"
proof -
  have held: "socket session_open = Some 0" by code_simp
  have beat: "pingIntervalRef session_open = Some 0" by code_simp
  have none: "socket session_dropped = None" by code_simp
  have timer: "reconnectTimeoutRef session_dropped = Some 0" by code_simp
  have last: "lastMessage session_dropped = Some ''Hello''" by code_simp
  have store: "map readyState ((sockets session_open)[0 := close_socket (sockets session_open ! 0)])
                 = [CLOSING]" by code_simp
  from disconnect_effect [of session_open 0 0 0] held beat store
  have one: "intentionalCloseRef (disconnect session_open) \<and>
   reconnectAttemptsRef (disconnect session_open) = 0 \<and>
   pingIntervalRef (disconnect session_open) = None \<and>
   0 \<notin> set (intervals (disconnect session_open)) \<and>
   map readyState (sockets (disconnect session_open)) = [CLOSING] \<and>
   lastMessage (disconnect session_open) = None \<and>
   \<not> isProcessing (disconnect session_open)"
    by simp
  from disconnect_effect [of session_dropped 0 0 0] none timer last
  have two: "0 \<notin> fst ` set (timers (disconnect session_dropped)) \<and>
   \<not> isReconnecting (disconnect session_dropped) \<and>
   lastMessage (disconnect session_dropped) = Some ''Hello''"
    by simp
  from one two show ?thesis by simp
qed

text \<open>
  C4 as stated fails: after the server dropped the socket, the \<^verbatim>\<open>socket\<close> cell is
  empty, and \<^verbatim>\<open>disconnect\<close> leaves the \<open>lastMessage\<close> of the session in place.
\<close>

theorem disconnect_without_socket_keeps_lastMessage:
  "socket session_dropped = None \<and>
   lastMessage session_dropped = Some ''Hello'' \<and>
   lastMessage (step parse_rejecting Disconnect session_dropped) = Some ''Hello''"
  by code_simp

subsection \<open>The attempt counter at an open\<close>

lemma resolve_attempts:
  "reconnectAttemptsRef (resolve ws s) =
     (if ws < length (sockets s) \<and> settled (sockets s ! ws) = Pending \<and>
         fromReconnect (sockets s ! ws)
      then 0 else reconnectAttemptsRef s)"
  by (simp add: resolve_def Let_def reconnect_then_def upd_socket_def)

text \<open>
  C6 (as the code has it). When a connecting socket with an unsettled promise opens, the
  attempt counter becomes 0 if the reconnect timer started the connection (the
  \<^verbatim>\<open>then\<close> handler of the timer runs), and keeps its value if an explicit
  \<^verbatim>\<open>connect\<close> call did: \<^verbatim>\<open>ws.onopen\<close> itself never writes the counter. The
  second part says the same for a socket that \<^verbatim>\<open>connect\<close> has just created.
\<close>

theorem open_resets_attempts_of_reconnect:
  "(ws < length (sockets s) \<and> readyState (sockets s ! ws) = CONNECTING \<and>
    settled (sockets s ! ws) = Pending \<longrightarrow>
      reconnectAttemptsRef (step parse (WsOpen ws) s) =
        (if fromReconnect (sockets s ! ws) then 0 else reconnectAttemptsRef s)) \<and>
   (connect cont own rep tok s0 = (Started ws', s') \<longrightarrow>
      reconnectAttemptsRef (step parse (WsOpen ws') s') =
        (if cont = ReconnectTimer then 0 else reconnectAttemptsRef s0))"
proof (intro conjI impI)
  assume h: "ws < length (sockets s) \<and> readyState (sockets s ! ws) = CONNECTING \<and>
    settled (sockets s ! ws) = Pending"
  then show "reconnectAttemptsRef (step parse (WsOpen ws) s) =
        (if fromReconnect (sockets s ! ws) then 0 else reconnectAttemptsRef s)"
    by (simp add: ws_onopen_def resolve_attempts upd_socket_def)
next
  assume c: "connect cont own rep tok s0 = (Started ws', s')"
  note st = connect_started [OF c]
  from st show "reconnectAttemptsRef (step parse (WsOpen ws') s') =
        (if cont = ReconnectTimer then 0 else reconnectAttemptsRef s0)"
    by (simp add: ws_onopen_def resolve_attempts upd_socket_def)
qed

text \<open>A reconnect attempt that opens resets the counter from 2 to 0; an explicit
  \<^verbatim>\<open>connect\<close> on the exhausted session opens with the counter still at 3.\<close>

theorem open_resets_attempts_of_reconnect_witness:
  "reconnectAttemptsRef session_retrying = 2 \<and>
   reconnectAttemptsRef (step parse_rejecting (WsOpen 2) session_retrying) = 0 \<and>
   reconnectAttemptsRef
     (step parse_rejecting (WsOpen 4)
        (snd (connect Caller ''octocat'' ''hello-world'' None session_exhausted))) = 3"
proof -
  have before: "reconnectAttemptsRef session_retrying = 2" by code_simp
  have pending: "2 < length (sockets session_retrying) \<and>
      readyState (sockets session_retrying ! 2) = CONNECTING \<and>
      settled (sockets session_retrying ! 2) = Pending" by code_simp
  have origin: "fromReconnect (sockets session_retrying ! 2)" by code_simp
  have started: "connect Caller ''octocat'' ''hello-world'' None session_exhausted =
      (Started 4, snd (connect Caller ''octocat'' ''hello-world'' None session_exhausted))"
    by code_simp
  have spent: "reconnectAttemptsRef session_exhausted = 3" by code_simp
  from open_resets_attempts_of_reconnect
         [of 2 session_retrying parse_rejecting Caller "''octocat''" "''hello-world''" None
             session_exhausted 4
             "snd (connect Caller ''octocat'' ''hello-world'' None session_exhausted)"]
       before pending origin started spent
  show ?thesis by simp
qed

text \<open>
  C6 as stated fails: after three failed reconnect attempts the counter is 3; an explicit
  \<^verbatim>\<open>connect\<close> then opens a socket and the counter is still 3, so that the next
  close of that socket arms no timer.
\<close>

theorem open_after_explicit_connect_keeps_attempts:
  "reconnectAttemptsRef session_exhausted = 3 \<and>
   reconnectAttemptsRef
     (run parse_rejecting [Connect ''octocat'' ''hello-world'' None, WsOpen 4] session_exhausted)
     = 3 \<and>
   isConnected
     (run parse_rejecting [Connect ''octocat'' ''hello-world'' None, WsOpen 4] session_exhausted) \<and>
   timers
     (run parse_rejecting [Connect ''octocat'' ''hello-world'' None, WsOpen 4, WsClose 4]
        session_exhausted) = []"
  by code_simp

subsection \<open>Streaming\<close>

lemma chunk_frame:
  "ws_onmessage parse ws (''stream:chunk:'' @ chunk) s =
   s\<lparr>statusMessage := None, isStreaming := True,
     streamingContent := Some (stream_buffer s @ chunk)\<rparr>"
  by (simp add: ws_onmessage_def stream_buffer_def)

lemma stream_end_frame:
  "ws_onmessage parse ws ''stream:end'' s =
   (if stream_buffer s \<noteq> []
    then s\<lparr>isStreaming := False, lastMessage := Some (stream_buffer s),
           streamingContent := None\<rparr>
    else s\<lparr>isStreaming := False, streamingContent := None\<rparr>)"
  by (simp add: ws_onmessage_def stream_buffer_def split: option.splits)

lemma status_frame:
  "ws_onmessage parse ws (''status:'' @ key) s = s\<lparr>statusMessage := Some (status_text key)\<rparr>"
  by (simp add: ws_onmessage_def)

lemma chunks_buffer:
  "stream_buffer (fold (ws_onmessage parse ws) (map ((@) ''stream:chunk:'') chunks) s)
     = stream_buffer s @ concat chunks"
proof (induction chunks arbitrary: s)
  case Nil
  show ?case by simp
next
  case (Cons c cs)
  have "stream_buffer (ws_onmessage parse ws (''stream:chunk:'' @ c) s) = stream_buffer s @ c"
    by (simp only: chunk_frame) (simp add: stream_buffer_def)
  with Cons.IH [of "ws_onmessage parse ws (''stream:chunk:'' @ c) s"] show ?case
    by (simp only: list.map fold_simps append_assoc concat.simps)
qed

lemma chunks_content:
  "streamingContent (fold (ws_onmessage parse ws) (map ((@) ''stream:chunk:'') (chunks @ [c])) s)
     = Some (stream_buffer s @ concat chunks @ c)"
proof -
  let ?mid = "fold (ws_onmessage parse ws) (map ((@) ''stream:chunk:'') chunks) s"
  have "streamingContent (ws_onmessage parse ws (''stream:chunk:'' @ c) ?mid)
          = Some (stream_buffer ?mid @ c)"
    by (simp only: chunk_frame) simp
  then show ?thesis
    by (simp only: map_append list.map fold_append fold_simps o_apply chunks_buffer append_assoc)
qed

text \<open>
  C8. From any state whose stream buffer is empty (\<^verbatim>\<open>null\<close> or the empty string), the
  frames \<^verbatim>\<open>status:cloning\<close>, \<^verbatim>\<open>stream:chunk:Hello \<close>, \<^verbatim>\<open>stream:chunk:world\<close>,
  \<^verbatim>\<open>stream:end\<close> leave \<open>lastMessage = Some ''Hello world''\<close>, \<open>isStreaming\<close> false and
  the buffer cleared. In general, any non-empty sequence of chunk frames leaves in the
  buffer its former content followed by the payloads in arrival order, with nothing in
  between; and \<^verbatim>\<open>stream:end\<close> moves a non-empty buffer to \<open>lastMessage\<close>, and always
  clears the buffer and \<open>isStreaming\<close>.
\<close>

theorem stream_accumulation:
  "(stream_buffer s = [] \<longrightarrow>
      lastMessage (fold (ws_onmessage parse ws)
         [''status:cloning'', ''stream:chunk:Hello '', ''stream:chunk:world'', ''stream:end''] s)
        = Some ''Hello world'' \<and>
      \<not> isStreaming (fold (ws_onmessage parse ws)
         [''status:cloning'', ''stream:chunk:Hello '', ''stream:chunk:world'', ''stream:end''] s) \<and>
      streamingContent (fold (ws_onmessage parse ws)
         [''status:cloning'', ''stream:chunk:Hello '', ''stream:chunk:world'', ''stream:end''] s)
        = None) \<and>
   streamingContent
     (fold (ws_onmessage parse ws) (map ((@) ''stream:chunk:'') (chunks @ [c])) s)
     = Some (stream_buffer s @ concat chunks @ c) \<and>
   (stream_buffer s \<noteq> [] \<longrightarrow>
      lastMessage (ws_onmessage parse ws ''stream:end'' s) = Some (stream_buffer s)) \<and>
   streamingContent (ws_onmessage parse ws ''stream:end'' s) = None \<and>
   \<not> isStreaming (ws_onmessage parse ws ''stream:end'' s)"
proof -
  have sequence: "lastMessage (fold (ws_onmessage parse ws)
         [''status:cloning'', ''stream:chunk:Hello '', ''stream:chunk:world'', ''stream:end''] s)
        = Some ''Hello world'' \<and>
      \<not> isStreaming (fold (ws_onmessage parse ws)
         [''status:cloning'', ''stream:chunk:Hello '', ''stream:chunk:world'', ''stream:end''] s) \<and>
      streamingContent (fold (ws_onmessage parse ws)
         [''status:cloning'', ''stream:chunk:Hello '', ''stream:chunk:world'', ''stream:end''] s)
        = None" if empty: "stream_buffer s = []"
  proof -
    have 1: "ws_onmessage parse ws ''status:cloning'' s
               = s\<lparr>statusMessage := Some (status_text ''cloning'')\<rparr>"
      using status_frame [of parse ws "''cloning''" s] by simp
    have 2: "ws_onmessage parse ws ''stream:chunk:Hello '' (s\<lparr>statusMessage := Some (status_text ''cloning'')\<rparr>)
               = s\<lparr>statusMessage := None, isStreaming := True,
                    streamingContent := Some ''Hello ''\<rparr>"
      using chunk_frame [of parse ws "''Hello ''"] empty by (simp add: stream_buffer_def)
    have 3: "ws_onmessage parse ws ''stream:chunk:world''
                (s\<lparr>statusMessage := None, isStreaming := True,
                    streamingContent := Some ''Hello ''\<rparr>)
               = s\<lparr>statusMessage := None, isStreaming := True,
                    streamingContent := Some ''Hello world''\<rparr>"
      using chunk_frame [of parse ws "''world''"] by (simp add: stream_buffer_def)
    have 4: "ws_onmessage parse ws ''stream:end''
                (s\<lparr>statusMessage := None, isStreaming := True,
                    streamingContent := Some ''Hello world''\<rparr>)
               = s\<lparr>statusMessage := None, isStreaming := False,
                    lastMessage := Some ''Hello world'', streamingContent := None\<rparr>"
      by (simp add: stream_end_frame stream_buffer_def)
    show ?thesis by (simp add: 1 2 3 4)
  qed
  have example: "stream_buffer s = [] \<longrightarrow>
      lastMessage (fold (ws_onmessage parse ws)
         [''status:cloning'', ''stream:chunk:Hello '', ''stream:chunk:world'', ''stream:end''] s)
        = Some ''Hello world'' \<and>
      \<not> isStreaming (fold (ws_onmessage parse ws)
         [''status:cloning'', ''stream:chunk:Hello '', ''stream:chunk:world'', ''stream:end''] s) \<and>
      streamingContent (fold (ws_onmessage parse ws)
         [''status:cloning'', ''stream:chunk:Hello '', ''stream:chunk:world'', ''stream:end''] s)
        = None"
    using sequence by (rule impI)
  have promote: "stream_buffer s \<noteq> [] \<longrightarrow>
      lastMessage (ws_onmessage parse ws ''stream:end'' s) = Some (stream_buffer s)"
    by (simp add: stream_end_frame)
  have cleared: "streamingContent (ws_onmessage parse ws ''stream:end'' s) = None"
    by (simp add: stream_end_frame)
  have stopped: "\<not> isStreaming (ws_onmessage parse ws ''stream:end'' s)"
    by (simp add: stream_end_frame)
  show ?thesis
    by (intro conjI example chunks_content promote cleared stopped)
qed

text \<open>The example sequence on the open session, and the promotion of a buffer that holds
  one chunk.\<close>

theorem stream_accumulation_witness:
  "lastMessage (fold (ws_onmessage parse_rejecting 0)
         [''status:cloning'', ''stream:chunk:Hello '', ''stream:chunk:world'', ''stream:end'']
         session_open)
        = Some ''Hello world'' \<and>
   \<not> isStreaming (fold (ws_onmessage parse_rejecting 0)
         [''status:cloning'', ''stream:chunk:Hello '', ''stream:chunk:world'', ''stream:end'']
         session_open) \<and>
   streamingContent (fold (ws_onmessage parse_rejecting 0)
         [''status:cloning'', ''stream:chunk:Hello '', ''stream:chunk:world'', ''stream:end'']
         session_open)
        = None \<and>
   lastMessage (ws_onmessage parse_rejecting 0 ''stream:end''
        (ws_onmessage parse_rejecting 0 ''stream:chunk:partial'' session_open))
        = Some ''partial''"
proof -
  have empty: "stream_buffer session_open = []" by code_simp
  have filled: "stream_buffer (ws_onmessage parse_rejecting 0 ''stream:chunk:partial'' session_open)
                  = ''partial''" by code_simp
  from stream_accumulation [of session_open parse_rejecting 0 "[]" "[]"] empty
  have one: "lastMessage (fold (ws_onmessage parse_rejecting 0)
         [''status:cloning'', ''stream:chunk:Hello '', ''stream:chunk:world'', ''stream:end'']
         session_open)
        = Some ''Hello world'' \<and>
   \<not> isStreaming (fold (ws_onmessage parse_rejecting 0)
         [''status:cloning'', ''stream:chunk:Hello '', ''stream:chunk:world'', ''stream:end'']
         session_open) \<and>
   streamingContent (fold (ws_onmessage parse_rejecting 0)
         [''status:cloning'', ''stream:chunk:Hello '', ''stream:chunk:world'', ''stream:end'']
         session_open)
        = None" by blast
  from stream_accumulation
         [of "ws_onmessage parse_rejecting 0 ''stream:chunk:partial'' session_open"
             parse_rejecting 0 "[]" "[]"] filled
  have two: "lastMessage (ws_onmessage parse_rejecting 0 ''stream:end''
        (ws_onmessage parse_rejecting 0 ''stream:chunk:partial'' session_open))
        = Some ''partial''" by simp
  from one two show ?thesis by blast
qed

subsection \<open>\<^verbatim>\<open>sendMessage\<close>\<close>

text \<open>
  C9. When the \<^verbatim>\<open>socket\<close> cell holds an open socket, \<^verbatim>\<open>sendMessage\<close> empties the
  suggestion list and sends one frame on that socket, the first 10000 characters of the
  text, and changes nothing else; a text of at most 10000 characters is sent as it is, and
  of a text of 15000 characters the frame is the prefix of length 10000. When the cell is
  empty or its socket is not open, \<^verbatim>\<open>sendMessage\<close> changes nothing and sends nothing.
\<close>

theorem sendMessage_truncates:
  "(socket s = Some ws \<and> transport_open s \<longrightarrow>
      sendMessage text s =
        s\<lparr>suggestions := [],
          sockets := (sockets s)[ws := (sockets s ! ws)
                        \<lparr>outbox := outbox (sockets s ! ws) @ [take 10000 text]\<rparr>]\<rparr> \<and>
      suggestions (sendMessage text s) = [] \<and>
      outbox (sockets (sendMessage text s) ! ws)
        = outbox (sockets s ! ws) @ [take 10000 text] \<and>
      (length text \<le> 10000 \<longrightarrow>
         outbox (sockets (sendMessage text s) ! ws) = outbox (sockets s ! ws) @ [text]) \<and>
      (length text = 15000 \<longrightarrow>
         length (last (outbox (sockets (sendMessage text s) ! ws))) = 10000 \<and>
         prefix (last (outbox (sockets (sendMessage text s) ! ws))) text)) \<and>
   (\<not> transport_open s \<longrightarrow> sendMessage text s = s)"
proof (intro conjI impI)
  assume closed: "\<not> transport_open s"
  then show "sendMessage text s = s"
    by (auto simp: sendMessage_def transport_open_def split: option.splits)
next
  assume live: "socket s = Some ws \<and> transport_open s"
  then have ix: "ws < length (sockets s)" and st: "readyState (sockets s ! ws) = OPEN"
    by (auto simp: transport_open_def)
  from live ix st show sent: "sendMessage text s =
        s\<lparr>suggestions := [],
          sockets := (sockets s)[ws := (sockets s ! ws)
                        \<lparr>outbox := outbox (sockets s ! ws) @ [take 10000 text]\<rparr>]\<rparr>"
    by (simp add: sendMessage_def MAX_MESSAGE_LENGTH_def ws_send_def upd_socket_def)
  from sent show "suggestions (sendMessage text s) = []" by simp
  from sent ix show box: "outbox (sockets (sendMessage text s) ! ws)
        = outbox (sockets s ! ws) @ [take 10000 text]" by simp
  { assume "length text \<le> 10000"
    with box show "outbox (sockets (sendMessage text s) ! ws) = outbox (sockets s ! ws) @ [text]"
      by simp }
  { assume "length text = 15000"
    with box show "length (last (outbox (sockets (sendMessage text s) ! ws))) = 10000"
      by simp }
  from box show "prefix (last (outbox (sockets (sendMessage text s) ! ws))) text"
    by (simp add: take_is_prefix)
qed

text \<open>A long and a short question on the open session, and a question on the dropped
  one.\<close>

theorem sendMessage_truncates_witness:
  "suggestions (sendMessage (replicate 15000 (CHR ''a'')) session_open) = [] \<and>
   outbox (sockets (sendMessage (replicate 15000 (CHR ''a'')) session_open) ! 0)
     = [replicate 10000 (CHR ''a'')] \<and>
   outbox (sockets (sendMessage ''What does this repository do?'' session_open) ! 0)
     = [''What does this repository do?''] \<and>
   sendMessage ''What does this repository do?'' session_dropped = session_dropped"
proof -
  have held: "socket session_open = Some 0" by code_simp
  have live: "transport_open session_open" by code_simp
  have fresh: "outbox (sockets session_open ! 0) = []" by code_simp
  have gone: "\<not> transport_open session_dropped" by code_simp
  have ix: "0 < length (sockets session_open)" by code_simp
  from sendMessage_truncates [of session_open 0 "replicate 15000 (CHR ''a'')"] held live fresh ix
  have long: "suggestions (sendMessage (replicate 15000 (CHR ''a'')) session_open) = [] \<and>
   outbox (sockets (sendMessage (replicate 15000 (CHR ''a'')) session_open) ! 0)
     = [replicate 10000 (CHR ''a'')]"
    by simp
  from sendMessage_truncates [of session_open 0 "''What does this repository do?''"]
       held live fresh ix
  have short: "outbox (sockets (sendMessage ''What does this repository do?'' session_open) ! 0)
     = [''What does this repository do?'']"
    by simp
  from sendMessage_truncates [of session_dropped 0 "''What does this repository do?''"] gone
  have quiet: "sendMessage ''What does this repository do?'' session_dropped = session_dropped"
    by simp
  from long short quiet show ?thesis by simp
qed

subsection \<open>The re-entrancy guard\<close>

lemma resolve_guard: "connectingRef (resolve ws s) = connectingRef s"
  by (simp add: resolve_def Let_def reconnect_then_def upd_socket_fields)

lemma onopen_guard: "connectingRef (ws_onopen ws s) = connectingRef s"
  by (simp add: ws_onopen_def resolve_guard upd_socket_fields)

lemma onmessage_guard:
  "connectingRef (ws_onmessage parse ws data s) =
     (connectingRef s \<and> \<not> releases_guard (WsMessage ws data))"
  by (simp add: ws_onmessage_def releases_guard_def connection_fatal_def ws_close_fields
           split: option.splits json.splits)

lemma onclose_guard: "\<not> connectingRef (ws_onclose ws s)"
  by (simp add: ws_onclose_def Let_def setTimeout_def clearPingInterval_fields)

lemma disconnect_guard: "connectingRef (disconnect s) = (connectingRef s \<and> socket s = None)"
  by (cases "reconnectTimeoutRef s"; cases "socket s")
     (simp_all add: disconnect_def Let_def clearTimeout_def platform_simps)

lemma sendMessage_guard: "connectingRef (sendMessage text s) = connectingRef s"
  by (simp add: sendMessage_def ws_send_def Let_def upd_socket_fields split: option.splits)

lemma ping_tick_guard: "connectingRef (ping_tick ws s) = connectingRef s"
  by (simp add: ping_tick_def ws_send_def upd_socket_fields)

lemma connect_guarded:
  "connectingRef s \<Longrightarrow> connect cont own rep tok s = (Returned, s)"
  by (simp add: connect_def)

lemma reconnect_fire_guard:
  "connectingRef s \<Longrightarrow> connectingRef (reconnect_fire s)"
  by (simp add: reconnect_fire_def Let_def connect_def reconnect_then_def split: option.splits)

lemma step_guard:
  assumes "connectingRef s" and "\<not> releases_guard e"
  shows "connectingRef (step parse e s)"
proof (cases e)
  case (Connect own rep tok)
  with assms show ?thesis by (simp add: connect_guarded)
next
  case Disconnect
  with assms show ?thesis by (simp add: releases_guard_def)
next
  case (SendMessage message)
  with assms show ?thesis by (simp add: sendMessage_guard)
next
  case (WsOpen ws)
  with assms show ?thesis by (simp add: onopen_guard upd_socket_fields)
next
  case (WsMessage ws data)
  with assms show ?thesis by (simp add: onmessage_guard)
next
  case (WsError ws)
  with assms show ?thesis by (simp add: releases_guard_def)
next
  case (WsClose ws)
  with assms show ?thesis by (simp add: releases_guard_def)
next
  case (ConnectTimeout ws)
  with assms show ?thesis by (simp add: releases_guard_def)
next
  case (PingTick ws)
  with assms show ?thesis by (simp add: ping_tick_guard)
next
  case (ReconnectFire h)
  with assms show ?thesis by (simp add: reconnect_fire_guard clearTimeout_def)
qed

lemma run_guard:
  assumes "connectingRef s" and "\<forall>e \<in> set evs. \<not> releases_guard e"
  shows "connectingRef (run parse evs s)"
  using assms
proof (induction evs arbitrary: s)
  case Nil
  then show ?case by simp
next
  case (Cons e evs)
  from Cons.prems have "connectingRef (step parse e s)" by (simp add: step_guard)
  with Cons show ?case by simp
qed


text \<open>
  C10 (as the code has it). \<^verbatim>\<open>connect\<close> engages the guard and the open of its socket
  leaves it engaged. From a state with the guard engaged, any sequence of events that
  contains, on no socket of the provider, a \<^verbatim>\<open>repo_processed\<close> frame, a
  connection-fatal, \<^verbatim>\<open>error:indexing_failed\<close> or \<^verbatim>\<open>error:unexpected\<close> frame, a
  close, error or connect-timeout event, and no \<^verbatim>\<open>disconnect\<close>, keeps it engaged
  (status, stream, metadata, suggestion and plain frames, heartbeat ticks, sent messages,
  reconnect timers and further \<^verbatim>\<open>connect\<close> calls), and a \<^verbatim>\<open>connect\<close> call then
  returns at once with the state unchanged and no socket created. Each of the listed
  frames, every close event, and \<^verbatim>\<open>disconnect\<close> with a socket held release the
  guard; \<^verbatim>\<open>disconnect\<close> with no socket held leaves it as it is.
\<close>

theorem reentrancy_guard_after_open:
  "(connect cont own rep tok s0 = (Started ws, s1) \<longrightarrow>
      connectingRef s1 \<and> connectingRef (step parse (WsOpen ws) s1)) \<and>
   (connectingRef s \<and> (\<forall>e \<in> set evs. \<not> releases_guard e) \<longrightarrow>
      connectingRef (run parse evs s) \<and>
      connect cont' own' rep' tok' (run parse evs s) = (Returned, run parse evs s)) \<and>
   (releases_guard (WsMessage ws' data) \<longrightarrow>
      \<not> connectingRef (ws_onmessage parse ws' data s)) \<and>
   \<not> connectingRef (ws_onclose ws' s) \<and>
   (socket s \<noteq> None \<longrightarrow> \<not> connectingRef (disconnect s)) \<and>
   (socket s = None \<longrightarrow> connectingRef (disconnect s) = connectingRef s)"
proof (intro conjI impI)
  assume started: "connect cont own rep tok s0 = (Started ws, s1)"
  from connect_started [OF started] show engaged: "connectingRef s1" by simp
  from engaged show "connectingRef (step parse (WsOpen ws) s1)"
    by (rule step_guard) (simp_all add: releases_guard_def)
next
  assume quiet: "connectingRef s \<and> (\<forall>e \<in> set evs. \<not> releases_guard e)"
  then show kept: "connectingRef (run parse evs s)" by (simp add: run_guard)
  from kept show "connect cont' own' rep' tok' (run parse evs s) = (Returned, run parse evs s)"
    by (rule connect_guarded)
next
  assume "releases_guard (WsMessage ws' data)"
  then show "\<not> connectingRef (ws_onmessage parse ws' data s)" by (simp add: onmessage_guard)
next
  show "\<not> connectingRef (ws_onclose ws' s)" by (rule onclose_guard)
next
  assume "socket s \<noteq> None"
  then show "\<not> connectingRef (disconnect s)" by (simp add: disconnect_guard)
next
  assume "socket s = None"
  then show "connectingRef (disconnect s) = connectingRef s" by (simp add: disconnect_guard)
qed

text \<open>On the open session: status and metadata frames, a heartbeat tick, a second
  \<^verbatim>\<open>connect\<close> and a sent message keep the guard engaged, and a third \<^verbatim>\<open>connect\<close>
  returns at once; \<^verbatim>\<open>repo_processed\<close>, a close event and \<^verbatim>\<open>disconnect\<close> release
  it.\<close>

theorem reentrancy_guard_after_open_witness:
  "connectingRef (snd (connect Caller ''octocat'' ''hello-world'' None initial)) \<and>
   connectingRef (step parse_rejecting (WsOpen 0)
      (snd (connect Caller ''octocat'' ''hello-world'' None initial))) \<and>
   connectingRef (run parse_rejecting
      [WsMessage 0 ''status:indexing'', WsMessage 0 ''metadata:{}'', PingTick 0,
       Connect ''octocat'' ''linguist'' None, SendMessage ''Hello''] session_open) \<and>
   connect Caller ''octocat'' ''linguist'' None
     (run parse_rejecting
        [WsMessage 0 ''status:indexing'', WsMessage 0 ''metadata:{}'', PingTick 0,
         Connect ''octocat'' ''linguist'' None, SendMessage ''Hello''] session_open)
     = (Returned,
        run parse_rejecting
          [WsMessage 0 ''status:indexing'', WsMessage 0 ''metadata:{}'', PingTick 0,
           Connect ''octocat'' ''linguist'' None, SendMessage ''Hello''] session_open) \<and>
   \<not> connectingRef (ws_onmessage parse_rejecting 0 ''repo_processed'' session_open) \<and>
   \<not> connectingRef (ws_onclose 0 session_open) \<and>
   \<not> connectingRef (disconnect session_open)"
proof -
  have started: "connect Caller ''octocat'' ''hello-world'' None initial =
      (Started 0, snd (connect Caller ''octocat'' ''hello-world'' None initial))"
    by code_simp
  have engaged: "connectingRef session_open" by code_simp
  have quiet: "\<forall>e \<in> set [WsMessage 0 ''status:indexing'', WsMessage 0 ''metadata:{}'',
       PingTick 0, Connect ''octocat'' ''linguist'' None, SendMessage ''Hello''].
       \<not> releases_guard e"
    by (simp add: releases_guard_def connection_fatal_def)
  have ready: "releases_guard (WsMessage 0 ''repo_processed'')"
    by (simp add: releases_guard_def)
  have held: "socket session_open \<noteq> None" by code_simp
  from reentrancy_guard_after_open
         [of Caller "''octocat''" "''hello-world''" None initial 0
             "snd (connect Caller ''octocat'' ''hello-world'' None initial)"
             parse_rejecting session_open
             "[WsMessage 0 ''status:indexing'', WsMessage 0 ''metadata:{}'', PingTick 0,
               Connect ''octocat'' ''linguist'' None, SendMessage ''Hello'']"
             Caller "''octocat''" "''linguist''" None 0 "''repo_processed''"]
       started engaged quiet ready held
  show ?thesis by blast
qed

text \<open>
  C10 as stated fails: the guard is one cell for all sockets. After \<^verbatim>\<open>repo_processed\<close>
  on socket 0 a second \<^verbatim>\<open>connect\<close> creates socket 1; the close event of socket 0
  then frees the guard, so that socket 1 is open, has received no frame, and a further
  \<^verbatim>\<open>connect\<close> starts socket 2. Likewise for the socket the provider holds: socket 2,
  started by the reconnect timer, opens after \<^verbatim>\<open>repo_processed\<close> on socket 1 has
  freed the guard, and a further \<^verbatim>\<open>connect\<close> starts socket 3.
\<close>

theorem open_connection_with_guard_free:
  "map readyState (sockets (run parse_rejecting
      [Connect ''octocat'' ''hello-world'' None, WsOpen 0, WsMessage 0 ''repo_processed'',
       Connect ''octocat'' ''linguist'' None, WsOpen 1, WsClose 0] initial))
     = [CLOSED, OPEN] \<and>
   map outbox (sockets (run parse_rejecting
      [Connect ''octocat'' ''hello-world'' None, WsOpen 0, WsMessage 0 ''repo_processed'',
       Connect ''octocat'' ''linguist'' None, WsOpen 1, WsClose 0] initial))
     = [[], []] \<and>
   connectingRef (run parse_rejecting
      [Connect ''octocat'' ''hello-world'' None, WsOpen 0, WsMessage 0 ''repo_processed'',
       Connect ''octocat'' ''linguist'' None, WsOpen 1, WsClose 0] initial) = False \<and>
   fst (connect Caller ''octocat'' ''linguist'' None (run parse_rejecting
      [Connect ''octocat'' ''hello-world'' None, WsOpen 0, WsMessage 0 ''repo_processed'',
       Connect ''octocat'' ''linguist'' None, WsOpen 1, WsClose 0] initial)) = Started 2 \<and>
   map readyState (sockets (run parse_rejecting
      [Connect ''octocat'' ''hello-world'' None, WsOpen 0, WsMessage 0 ''repo_processed'',
       Connect ''octocat'' ''linguist'' None, WsClose 0, WsOpen 1, ReconnectFire 0,
       WsMessage 1 ''repo_processed'', WsOpen 2] initial))
     = [CLOSED, OPEN, OPEN] \<and>
   socket (run parse_rejecting
      [Connect ''octocat'' ''hello-world'' None, WsOpen 0, WsMessage 0 ''repo_processed'',
       Connect ''octocat'' ''linguist'' None, WsClose 0, WsOpen 1, ReconnectFire 0,
       WsMessage 1 ''repo_processed'', WsOpen 2] initial) = Some 2 \<and>
   connectingRef (run parse_rejecting
      [Connect ''octocat'' ''hello-world'' None, WsOpen 0, WsMessage 0 ''repo_processed'',
       Connect ''octocat'' ''linguist'' None, WsClose 0, WsOpen 1, ReconnectFire 0,
       WsMessage 1 ''repo_processed'', WsOpen 2] initial) = False \<and>
   fst (connect Caller ''octocat'' ''linguist'' None (run parse_rejecting
      [Connect ''octocat'' ''hello-world'' None, WsOpen 0, WsMessage 0 ''repo_processed'',
       Connect ''octocat'' ''linguist'' None, WsClose 0, WsOpen 1, ReconnectFire 0,
       WsMessage 1 ''repo_processed'', WsOpen 2] initial)) = Started 3"
  by code_simp


subsection \<open>The reconnect policy\<close>








lemma spent_clearPingInterval:
  "reconnect_spent (clearPingInterval s) = reconnect_spent s"
  by (simp add: reconnect_spent_def clearPingInterval_fields)














lemma spent_new_socket:
  assumes "reconnect_spent s" and "no_retry_pending w"
  shows "reconnect_spent (s\<lparr>sockets := sockets s @ [w]\<rparr>)"
  using assms by (simp add: reconnect_spent_def)











end
